theory Spec2Isabelle
  imports Complex_Main
begin

section \<open>The tunnel renderer of tunnelz/tunnel.py\<close>

text \<open>
  The embedding follows \<^verbatim>\<open>Tunnel.display\<close> and
  \<^verbatim>\<open>Tunnel.draw_segments_with_animations\<close>. Python ints are \<^typ>\<open>int\<close>. The calls
  \<^verbatim>\<open>dc_agg.draw_arc(...)\<close> are collected, in order, as the list of draw commands the
  call emits. The methods are read twice. In this first reading Python floats and numpy
  float arrays are real numbers and lists of real numbers with exact arithmetic; it
  carries the properties that no rounding can change. The second reading, further down,
  rounds every float operation to double precision and carries the properties that
  depend on rounding.
\<close>

subsection \<open>Python arithmetic\<close>

text \<open>\<^verbatim>\<open>x % y\<close> on floats: the remainder takes the sign of the divisor.\<close>

definition py_fmod :: "real \<Rightarrow> real \<Rightarrow> real" where
  "py_fmod x y = x - y * of_int \<lfloor>x / y\<rfloor>"

text \<open>\<^verbatim>\<open>int(x)\<close> on a float: truncation toward zero.\<close>

definition py_int :: "real \<Rightarrow> int" where
  "py_int x = (if 0 \<le> x then \<lfloor>x\<rfloor> else \<lceil>x\<rceil>)"

datatype error = ZeroDivisionError

subsection \<open>Constants of the module and of the class\<close>

definition MAX_RAD_MULT :: real where
  "MAX_RAD_MULT = 2"

definition MAX_ELLIPSE_ASPECT :: real where
  "MAX_ELLIPSE_ASPECT = 2"

definition TWOPI :: real where
  "TWOPI = 2 * pi"

definition rot_speed_scale :: real where
  "rot_speed_scale = 155 / 1000"

subsection \<open>Collaborators that are imported by the module\<close>

text \<open>
  An animation's \<^verbatim>\<open>target\<close> attribute is compared with ten members of
  \<^verbatim>\<open>AnimationTarget\<close>; Python does not restrict the attribute to them, and
  \<open>OtherTarget\<close> stands for any value that is equal to none of the ten.
\<close>

datatype AnimationTarget =
    Rotation | Ellipse | Thickness | Radius | Color | ColorSpread
  | ColorPeriodicity | ColorSaturation | PositionX | PositionY | OtherTarget

text \<open>
  Modelled from the spec: the module \<^verbatim>\<open>geometry\<close> is imported, not defined here.
  The fields are the read-only configuration values the renderer reads; the pixel sizes,
  centers and offset limits are Python ints (so \<^verbatim>\<open>geometry.x_size/2\<close> is Python 2
  integer division), the radius and thickness scales are numbers.
\<close>

record Geometry =
  x_center :: int
  y_center :: int
  x_size :: int
  y_size :: int
  max_radius :: real
  thickness_scale :: real
  max_x_offset :: int
  max_y_offset :: int

text \<open>
  Modelled from the spec: the class \<^verbatim>\<open>Animation\<close> and the function
  \<^verbatim>\<open>sawtooth_vector\<close> are imported, not defined here. They are parameters of the
  model: \<open>'a\<close> is the state of one animation, \<open>update_state\<close> advances it by one frame,
  \<open>get_value\<close> is its scalar sample, \<open>get_value_elem\<close> is the sample that
  \<^verbatim>\<open>get_value_vector\<close> returns for one relative angle (one value per supplied
  angle), and \<open>sawtooth\<close> is the waveform that \<^verbatim>\<open>sawtooth_vector\<close> applies to
  each phase.
\<close>

record 'a env =
  geometry :: Geometry
  target :: "'a \<Rightarrow> AnimationTarget"
  update_state :: "'a \<Rightarrow> 'a"
  get_value :: "'a \<Rightarrow> real \<Rightarrow> real"
  get_value_elem :: "'a \<Rightarrow> real \<Rightarrow> real"
  sawtooth :: "real \<Rightarrow> real \<Rightarrow> real"

definition get_value_vector :: "'a env \<Rightarrow> 'a \<Rightarrow> real list \<Rightarrow> real list" where
  "get_value_vector env anim angles = map (get_value_elem env anim) angles"

definition sawtooth_vector :: "'a env \<Rightarrow> real list \<Rightarrow> real \<Rightarrow> real list" where
  "sawtooth_vector env phases offs = map (\<lambda>p. sawtooth env p offs) phases"

subsection \<open>The tunnel and the draw commands\<close>

record 'a Tunnel =
  rot_speed :: real
  thickness :: real
  radius :: real
  ellipse_aspect :: real
  col_center :: real
  col_width :: real
  col_spread :: real
  col_sat :: real
  segs :: int
  blacking :: int
  curr_angle :: real
  x_offset :: int
  y_offset :: int
  anims :: "'a list"

text \<open>
  The tuple handed to \<^verbatim>\<open>draw_arc\<close>, in the order of the source: level, stroke
  weight, hue, saturation, value, center x and y, the two radii, start and stop angle.
\<close>

record DrawCommand =
  dc_level :: int
  dc_stroke :: real
  dc_hue :: real
  dc_sat :: real
  dc_val :: int
  dc_x :: int
  dc_y :: int
  dc_rad_x :: int
  dc_rad_y :: int
  dc_start :: real
  dc_stop :: real

subsection \<open>numpy vectors\<close>

definition vadd :: "real list \<Rightarrow> real list \<Rightarrow> real list" where
  "vadd xs ys = map2 (+) xs ys"

definition sadd :: "real list \<Rightarrow> real \<Rightarrow> real list" where
  "sadd xs c = map (\<lambda>v. v + c) xs"

definition zeros :: "nat \<Rightarrow> real list" where
  "zeros n = replicate n 0"

subsection \<open>Segment selection by the blacking parameter\<close>

text \<open>
  Lines 161 to 172. The local \<^verbatim>\<open>blacking\<close> is first set to 0 when the attribute is
  -1; the non-negative branch then recomputes it from the attribute itself.
\<close>

definition blacking_divisor :: "int \<Rightarrow> int" where
  "blacking_divisor self_blacking =
     (let blacking = (if self_blacking = - 1 then 0 else self_blacking)
      in if blacking \<ge> 0 then \<bar>max self_blacking 1\<bar> else \<bar>blacking\<bar>)"

definition draw_segment :: "int \<Rightarrow> int \<Rightarrow> bool" where
  "draw_segment self_blacking i =
     (let blacking = (if self_blacking = - 1 then 0 else self_blacking)
      in if blacking \<ge> 0 then i mod blacking_divisor self_blacking = 0
         else i mod blacking_divisor self_blacking \<noteq> 0)"

text \<open>\<^verbatim>\<open>seg_num[draw_segment]\<close> over \<^verbatim>\<open>xrange(n_segs)\<close>.\<close>

definition selected_segments :: "int \<Rightarrow> int \<Rightarrow> int list" where
  "selected_segments self_blacking n_segs =
     filter (draw_segment self_blacking) [0 .. n_segs - 1]"

subsection \<open>The per-segment loop over the animations\<close>

record adjustments =
  rad_adjust :: "real list"
  thickness_adjust :: "real list"
  col_center_adjust :: "real list"
  col_width_adjust :: "real list"
  col_period_adjust :: "real list"
  col_sat_adjust :: "real list"
  x_adjust :: real
  y_adjust :: real

definition no_adjustments :: "nat \<Rightarrow> adjustments" where
  "no_adjustments n =
     \<lparr>rad_adjust = zeros n, thickness_adjust = zeros n, col_center_adjust = zeros n,
      col_width_adjust = zeros n, col_period_adjust = zeros n, col_sat_adjust = zeros n,
      x_adjust = 0, y_adjust = 0\<rparr>"

text \<open>One pass of the loop of lines 193 to 212; a target that matches no branch changes nothing.\<close>

definition route :: "'a env \<Rightarrow> real list \<Rightarrow> 'a \<Rightarrow> adjustments \<Rightarrow> adjustments" where
  "route env rel_angle anim acc =
     (case target env anim of
        Thickness \<Rightarrow>
          acc\<lparr>thickness_adjust := vadd (thickness_adjust acc) (get_value_vector env anim rel_angle)\<rparr>
      | Radius \<Rightarrow>
          acc\<lparr>rad_adjust := vadd (rad_adjust acc) (get_value_vector env anim rel_angle)\<rparr>
      | Color \<Rightarrow>
          acc\<lparr>col_center_adjust := sadd (col_center_adjust acc) (get_value env anim 0)\<rparr>
      | ColorSpread \<Rightarrow>
          acc\<lparr>col_width_adjust := sadd (col_width_adjust acc) (get_value env anim 0)\<rparr>
      | ColorPeriodicity \<Rightarrow>
          acc\<lparr>col_period_adjust := sadd (col_period_adjust acc) (get_value env anim 0 / 16)\<rparr>
      | ColorSaturation \<Rightarrow>
          acc\<lparr>col_sat_adjust := vadd (col_sat_adjust acc) (get_value_vector env anim rel_angle)\<rparr>
      | PositionX \<Rightarrow>
          acc\<lparr>x_adjust := x_adjust acc
             + get_value env anim 0 * of_int (x_size (geometry env) div 2) / 127\<rparr>
      | PositionY \<Rightarrow>
          acc\<lparr>y_adjust := y_adjust acc
             + get_value env anim 0 * of_int (y_size (geometry env) div 2) / 127\<rparr>
      | _ \<Rightarrow> acc)"

definition accumulate :: "'a env \<Rightarrow> real list \<Rightarrow> 'a list \<Rightarrow> adjustments" where
  "accumulate env rel_angle as =
     fold (route env rel_angle) as (no_adjustments (length rel_angle))"

subsection \<open>draw_segments_with_animations\<close>

definition mask_arc :: "int \<Rightarrow> int \<Rightarrow> real \<times> real \<times> real \<times> real \<times> real \<Rightarrow> DrawCommand" where
  "mask_arc xc yc t =
     (case t of (strk, r_x, r_y, start_angle, stop_angle) \<Rightarrow>
        \<lparr>dc_level = 255, dc_stroke = strk, dc_hue = 0, dc_sat = 0, dc_val = 0,
         dc_x = xc, dc_y = yc, dc_rad_x = py_int r_x, dc_rad_y = py_int r_y,
         dc_start = start_angle, dc_stop = stop_angle\<rparr>)"

definition colour_arc ::
  "int \<Rightarrow> int \<Rightarrow> int \<Rightarrow> real \<times> real \<times> real \<times> real \<times> real \<times> real \<times> real \<Rightarrow> DrawCommand" where
  "colour_arc level_scale xc yc t =
     (case t of (h, s, strk, r_x, r_y, start_angle, stop_angle) \<Rightarrow>
        \<lparr>dc_level = level_scale, dc_stroke = strk, dc_hue = h, dc_sat = s, dc_val = 255,
         dc_x = xc, dc_y = yc, dc_rad_x = py_int r_x, dc_rad_y = py_int r_y,
         dc_start = start_angle, dc_stop = stop_angle\<rparr>)"

definition draw_segments_with_animations ::
  "'a env \<Rightarrow> 'a Tunnel \<Rightarrow> real \<Rightarrow> real \<Rightarrow> int \<Rightarrow> bool \<Rightarrow> int \<Rightarrow> real
     \<Rightarrow> error + DrawCommand list" where
  "draw_segments_with_animations env self rad_x rad_y n_segs as_mask level_scale thick =
     (let seg_num = selected_segments (blacking self) n_segs
      in if segs self = 0 then Inl ZeroDivisionError
         else
           let rot_interval = TWOPI / of_int (segs self);
               seg_angle = map (\<lambda>i. rot_interval * of_int i + curr_angle self) seg_num;
               rel_angle = map (\<lambda>i. rot_interval * of_int i) seg_num;
               acc = accumulate env rel_angle (anims self);
               stroke_weight = map (\<lambda>a. \<bar>thick * (1 + a / 127)\<bar>) (thickness_adjust acc);
               xc = x_center (geometry env) + x_offset self + py_int (x_adjust acc);
               yc = y_center (geometry env) + y_offset self + py_int (y_adjust acc);
               rad_x_vec = map (\<lambda>a. \<bar>rad_x + a\<bar>) (rad_adjust acc);
               rad_y_vec = map (\<lambda>a. \<bar>rad_y + a\<bar>) (rad_adjust acc);
               stop = map (\<lambda>a. a + rot_interval) seg_angle
           in if as_mask then
                Inr (map (mask_arc xc yc)
                      (zip stroke_weight (zip rad_x_vec (zip rad_y_vec (zip seg_angle stop)))))
              else
                let waves = sawtooth_vector env
                      (map2 (\<lambda>r p. r * (16 * col_spread self + p)) rel_angle
                         (col_period_adjust acc)) 0;
                    hue = map (\<lambda>h. py_fmod h 256)
                      (map2 (+) (map (\<lambda>a. 255 * col_center self + a) (col_center_adjust acc))
                         (map2 (*) (map (\<lambda>a. 127 * col_width self + a) (col_width_adjust acc))
                            waves));
                    sat = map (\<lambda>a. 255 * col_sat self + a) (col_sat_adjust acc)
                in Inr (map (colour_arc level_scale xc yc)
                      (zip hue (zip sat (zip stroke_weight (zip rad_x_vec
                         (zip rad_y_vec (zip seg_angle stop))))))))"

subsection \<open>display\<close>

text \<open>The loop of lines 126 to 137: every animation is advanced, then read.\<close>

fun update_anims :: "'a env \<Rightarrow> 'a list \<Rightarrow> real \<Rightarrow> real \<Rightarrow> 'a list \<times> real \<times> real" where
  "update_anims env [] rot_adjust ellipse_adjust = ([], rot_adjust, ellipse_adjust)"
| "update_anims env (anim # rest) rot_adjust ellipse_adjust =
     (let anim' = update_state env anim;
          tgt = target env anim';
          rot_adjust' = (if tgt = Rotation then rot_adjust + get_value env anim' 0
                         else rot_adjust);
          ellipse_adjust' = (if tgt = Rotation then ellipse_adjust
                             else if tgt = Ellipse then ellipse_adjust + get_value env anim' 0
                             else ellipse_adjust)
      in case update_anims env rest rot_adjust' ellipse_adjust' of
           (rest', r, e) \<Rightarrow> (anim' # rest', r, e))"

text \<open>
  Lines 145 to 149: the radii and the thickness handed to the segment renderer. The locals
  \<^verbatim>\<open>radius\<close> and \<^verbatim>\<open>thickness\<close> of the source are \<open>rad\<close> and \<open>thick\<close> here, and
  the locals \<^verbatim>\<open>x_center\<close> and \<^verbatim>\<open>y_center\<close> of the renderer are \<open>xc\<close> and \<open>yc\<close>,
  since the attributes of the same names are fields of the records.
\<close>

definition tunnel_radii :: "Geometry \<Rightarrow> 'a Tunnel \<Rightarrow> real \<Rightarrow> real \<times> real \<times> real" where
  "tunnel_radii g self ellipse_adjust =
     (let rad = of_int (py_int (MAX_RAD_MULT * max_radius g * radius self));
          thick = thickness self * thickness_scale g;
          rad_x = rad * (MAX_ELLIPSE_ASPECT * (ellipse_aspect self + ellipse_adjust)) - thick / 2;
          rad_y = rad - thick / 2
      in (rad_x, rad_y, thick))"

text \<open>
  The attributes written before the segment renderer is called: the clamped offsets, the
  advanced animations and the new angle. They stay written when the renderer raises.
\<close>

definition advance :: "'a env \<Rightarrow> 'a Tunnel \<Rightarrow> 'a Tunnel \<times> real" where
  "advance env self =
     (let g = geometry env;
          xo = min (max (x_offset self) (- max_x_offset g)) (max_x_offset g);
          yo = min (max (y_offset self) (- max_y_offset g)) (max_y_offset g)
      in case update_anims env (anims self) 0 0 of
           (anims', rot_adjust, ellipse_adjust) \<Rightarrow>
             (self\<lparr>x_offset := xo, y_offset := yo, anims := anims',
                   curr_angle := py_fmod
                     (curr_angle self + (rot_speed self + rot_adjust) * rot_speed_scale) TWOPI\<rparr>,
              ellipse_adjust))"

definition display ::
  "'a env \<Rightarrow> 'a Tunnel \<Rightarrow> int \<Rightarrow> bool \<Rightarrow> 'a Tunnel \<times> (error + DrawCommand list)" where
  "display env self level_scale as_mask =
     (case advance env self of
        (self', ellipse_adjust) \<Rightarrow>
          (case tunnel_radii (geometry env) self' ellipse_adjust of
             (rad_x, rad_y, thick) \<Rightarrow>
               (self', draw_segments_with_animations env self' rad_x rad_y (segs self')
                         as_mask level_scale thick)))"

text \<open>The draw commands of one call; none when the call raises.\<close>

definition emitted :: "'a env \<Rightarrow> 'a Tunnel \<Rightarrow> int \<Rightarrow> bool \<Rightarrow> DrawCommand list" where
  "emitted env self level_scale as_mask =
     (case snd (display env self level_scale as_mask) of Inl _ \<Rightarrow> [] | Inr cs \<Rightarrow> cs)"

subsection \<open>Reading one frame\<close>

text \<open>The relative angles of the selected segments, as line 191 computes them.\<close>

definition rel_angles :: "'a Tunnel \<Rightarrow> real list" where
  "rel_angles self =
     map (\<lambda>i. TWOPI / of_int (segs self) * of_int i)
       (selected_segments (blacking self) (segs self))"

text \<open>The accumulators at the end of the loop of lines 193 to 212 in one call of display.\<close>

definition frame_adjustments :: "'a env \<Rightarrow> 'a Tunnel \<Rightarrow> adjustments" where
  "frame_adjustments env self =
     (let self' = fst (advance env self)
      in accumulate env (rel_angles self') (anims self'))"

text \<open>All six accumulator vectors have \<open>n\<close> entries.\<close>

definition sized :: "nat \<Rightarrow> adjustments \<Rightarrow> bool" where
  "sized n acc \<longleftrightarrow>
     length (rad_adjust acc) = n \<and> length (thickness_adjust acc) = n \<and>
     length (col_center_adjust acc) = n \<and> length (col_width_adjust acc) = n \<and>
     length (col_period_adjust acc) = n \<and> length (col_sat_adjust acc) = n"

text \<open>The sums that the loop of lines 126 to 137 forms over the advanced animations.\<close>

definition rot_total :: "'a env \<Rightarrow> 'a list \<Rightarrow> real" where
  "rot_total env as =
     sum_list (map (\<lambda>a. get_value env a 0) (filter (\<lambda>a. target env a = Rotation) as))"

definition ell_total :: "'a env \<Rightarrow> 'a list \<Rightarrow> real" where
  "ell_total env as =
     sum_list (map (\<lambda>a. get_value env a 0) (filter (\<lambda>a. target env a = Ellipse) as))"

text \<open>The fields of a draw command other than level, hue, saturation and value.\<close>

definition geometry_of :: "DrawCommand \<Rightarrow> real \<times> int \<times> int \<times> int \<times> int \<times> real \<times> real" where
  "geometry_of c =
     (dc_stroke c, dc_x c, dc_y c, dc_rad_x c, dc_rad_y c, dc_start c, dc_stop c)"

subsection \<open>A small configuration for evaluation\<close>

text \<open>
  An animation of the example is a target with a constant sample; advancing it changes
  nothing. The waveform of the example is the identity on the phase.
\<close>

definition demo_geometry :: Geometry where
  "demo_geometry =
     \<lparr>x_center = 127, y_center = 100, x_size = 254, y_size = 200, max_radius = 3,
      thickness_scale = 2, max_x_offset = 50, max_y_offset = 40\<rparr>"

definition demo_env :: "(AnimationTarget \<times> real) env" where
  "demo_env =
     \<lparr>geometry = demo_geometry, target = fst, update_state = (\<lambda>a. a),
      get_value = (\<lambda>a x. snd a), get_value_elem = (\<lambda>a x. snd a),
      sawtooth = (\<lambda>p offs. p)\<rparr>"

definition demo_tunnel :: "(AnimationTarget \<times> real) Tunnel" where
  "demo_tunnel =
     \<lparr>rot_speed = 0, thickness = 1 / 4, radius = 1 / 4, ellipse_aspect = 1,
      col_center = 1 / 2, col_width = 0, col_spread = 0, col_sat = 0,
      segs = 4, blacking = 2, curr_angle = 0, x_offset = 0, y_offset = 0,
      anims = [(PositionX, 7 / 10), (Radius, 3), (OtherTarget, 5), (Color, 200)]\<rparr>"

section \<open>The renderer in double precision\<close>

text \<open>
  Where the outcome of a property depends on rounding, the same two methods are read with
  the arithmetic Python and numpy perform. A finite float is the real number it denotes
  (so 0.0 and -0.0 are both 0); every arithmetic operation rounds its exact result to the
  nearest binary64 value, ties to even. Overflow to infinity, infinities and NaN are not
  part of this reading: it describes the runs whose values stay finite.
\<close>

subsection \<open>binary64 rounding\<close>

text \<open>Rounding to the nearest integer, ties to the even one.\<close>

definition rne :: "real \<Rightarrow> int" where
  "rne r =
     (let f = \<lfloor>r\<rfloor>
      in if r - of_int f < 1 / 2 then f
         else if 1 / 2 < r - of_int f then f + 1
         else if even f then f else f + 1)"

text \<open>
  The spacing of the binary64 values around \<open>x\<close>: 52 binary places below the leading
  bit, and \<open>2 ^ - 1074\<close> throughout the subnormal range.
\<close>

definition ulp :: "real \<Rightarrow> real" where
  "ulp x = 2 powr (of_int (max \<lfloor>log 2 \<bar>x\<bar>\<rfloor> (- 1022)) - 52)"

definition fl :: "real \<Rightarrow> real" where
  "fl x = (if x = 0 then 0 else ulp x * of_int (rne (x / ulp x)))"

definition fadd :: "real \<Rightarrow> real \<Rightarrow> real" where
  "fadd x y = fl (x + y)"

definition fsub :: "real \<Rightarrow> real \<Rightarrow> real" where
  "fsub x y = fl (x - y)"

definition fmul :: "real \<Rightarrow> real \<Rightarrow> real" where
  "fmul x y = fl (x * y)"

definition fdiv :: "real \<Rightarrow> real \<Rightarrow> real" where
  "fdiv x y = fl (x / y)"

text \<open>The C function \<^verbatim>\<open>fmod\<close>: the exact remainder, with the sign of \<open>x\<close>.\<close>

definition c_fmod :: "real \<Rightarrow> real \<Rightarrow> real" where
  "c_fmod x y = x - y * of_int (py_int (x / y))"

text \<open>
  \<^verbatim>\<open>x % y\<close> on floats, as \<^verbatim>\<open>float_rem\<close> of CPython and the remainder loop of numpy
  compute it: the result of \<^verbatim>\<open>fmod\<close>, and when that is not zero and its sign is not
  the sign of \<open>y\<close>, the rounded sum of it and \<open>y\<close>.
\<close>

definition float_rem :: "real \<Rightarrow> real \<Rightarrow> real" where
  "float_rem x y =
     (let m = c_fmod x y
      in if m \<noteq> 0 \<and> (y < 0) \<noteq> (m < 0) then fadd m y else m)"

text \<open>The module constants as the floats they are: \<^verbatim>\<open>2*pi\<close> and the literal 0.155.\<close>

definition TWOPI_f :: real where
  "TWOPI_f = 884279719003555 / 2 ^ 47"

definition rot_speed_scale_f :: real where
  "rot_speed_scale_f = 5584463537939415 / 2 ^ 55"

definition vadd_f :: "real list \<Rightarrow> real list \<Rightarrow> real list" where
  "vadd_f xs ys = map2 fadd xs ys"

definition sadd_f :: "real list \<Rightarrow> real \<Rightarrow> real list" where
  "sadd_f xs c = map (\<lambda>v. fadd v c) xs"

subsection \<open>The per-segment loop in double precision\<close>

definition route_f :: "'a env \<Rightarrow> real list \<Rightarrow> 'a \<Rightarrow> adjustments \<Rightarrow> adjustments" where
  "route_f env rel_angle anim acc =
     (case target env anim of
        Thickness \<Rightarrow>
          acc\<lparr>thickness_adjust :=
                vadd_f (thickness_adjust acc) (get_value_vector env anim rel_angle)\<rparr>
      | Radius \<Rightarrow>
          acc\<lparr>rad_adjust := vadd_f (rad_adjust acc) (get_value_vector env anim rel_angle)\<rparr>
      | Color \<Rightarrow>
          acc\<lparr>col_center_adjust := sadd_f (col_center_adjust acc) (get_value env anim 0)\<rparr>
      | ColorSpread \<Rightarrow>
          acc\<lparr>col_width_adjust := sadd_f (col_width_adjust acc) (get_value env anim 0)\<rparr>
      | ColorPeriodicity \<Rightarrow>
          acc\<lparr>col_period_adjust :=
                sadd_f (col_period_adjust acc) (fdiv (get_value env anim 0) 16)\<rparr>
      | ColorSaturation \<Rightarrow>
          acc\<lparr>col_sat_adjust :=
                vadd_f (col_sat_adjust acc) (get_value_vector env anim rel_angle)\<rparr>
      | PositionX \<Rightarrow>
          acc\<lparr>x_adjust := fadd (x_adjust acc)
             (fdiv (fmul (get_value env anim 0) (of_int (x_size (geometry env) div 2))) 127)\<rparr>
      | PositionY \<Rightarrow>
          acc\<lparr>y_adjust := fadd (y_adjust acc)
             (fdiv (fmul (get_value env anim 0) (of_int (y_size (geometry env) div 2))) 127)\<rparr>
      | _ \<Rightarrow> acc)"

definition accumulate_f :: "'a env \<Rightarrow> real list \<Rightarrow> 'a list \<Rightarrow> adjustments" where
  "accumulate_f env rel_angle as =
     fold (route_f env rel_angle) as (no_adjustments (length rel_angle))"

subsection \<open>draw_segments_with_animations in double precision\<close>

definition draw_segments_with_animations_f ::
  "'a env \<Rightarrow> 'a Tunnel \<Rightarrow> real \<Rightarrow> real \<Rightarrow> int \<Rightarrow> bool \<Rightarrow> int \<Rightarrow> real
     \<Rightarrow> error + DrawCommand list" where
  "draw_segments_with_animations_f env self rad_x rad_y n_segs as_mask level_scale thick =
     (let seg_num = selected_segments (blacking self) n_segs
      in if segs self = 0 then Inl ZeroDivisionError
         else
           let rot_interval = fdiv TWOPI_f (of_int (segs self));
               seg_angle = map (\<lambda>i. fadd (fmul rot_interval (of_int i)) (curr_angle self)) seg_num;
               rel_angle = map (\<lambda>i. fmul rot_interval (of_int i)) seg_num;
               acc = accumulate_f env rel_angle (anims self);
               stroke_weight =
                 map (\<lambda>a. \<bar>fmul thick (fadd 1 (fdiv a 127))\<bar>) (thickness_adjust acc);
               xc = x_center (geometry env) + x_offset self + py_int (x_adjust acc);
               yc = y_center (geometry env) + y_offset self + py_int (y_adjust acc);
               rad_x_vec = map (\<lambda>a. \<bar>fadd rad_x a\<bar>) (rad_adjust acc);
               rad_y_vec = map (\<lambda>a. \<bar>fadd rad_y a\<bar>) (rad_adjust acc);
               stop = map (\<lambda>a. fadd a rot_interval) seg_angle
           in if as_mask then
                Inr (map (mask_arc xc yc)
                      (zip stroke_weight (zip rad_x_vec (zip rad_y_vec (zip seg_angle stop)))))
              else
                let waves = sawtooth_vector env
                      (map2 (\<lambda>r p. fmul r (fadd (fmul 16 (col_spread self)) p)) rel_angle
                         (col_period_adjust acc)) 0;
                    hue = map (\<lambda>h. float_rem h 256)
                      (map2 fadd
                         (map (\<lambda>a. fadd (fmul 255 (col_center self)) a) (col_center_adjust acc))
                         (map2 fmul
                            (map (\<lambda>a. fadd (fmul 127 (col_width self)) a) (col_width_adjust acc))
                            waves));
                    sat = map (\<lambda>a. fadd (fmul 255 (col_sat self)) a) (col_sat_adjust acc)
                in Inr (map (colour_arc level_scale xc yc)
                      (zip hue (zip sat (zip stroke_weight (zip rad_x_vec
                         (zip rad_y_vec (zip seg_angle stop))))))))"

subsection \<open>display in double precision\<close>

fun update_anims_f :: "'a env \<Rightarrow> 'a list \<Rightarrow> real \<Rightarrow> real \<Rightarrow> 'a list \<times> real \<times> real" where
  "update_anims_f env [] rot_adjust ellipse_adjust = ([], rot_adjust, ellipse_adjust)"
| "update_anims_f env (anim # rest) rot_adjust ellipse_adjust =
     (let anim' = update_state env anim;
          tgt = target env anim';
          rot_adjust' = (if tgt = Rotation then fadd rot_adjust (get_value env anim' 0)
                         else rot_adjust);
          ellipse_adjust' = (if tgt = Rotation then ellipse_adjust
                             else if tgt = Ellipse
                               then fadd ellipse_adjust (get_value env anim' 0)
                             else ellipse_adjust)
      in case update_anims_f env rest rot_adjust' ellipse_adjust' of
           (rest', r, e) \<Rightarrow> (anim' # rest', r, e))"

definition tunnel_radii_f :: "Geometry \<Rightarrow> 'a Tunnel \<Rightarrow> real \<Rightarrow> real \<times> real \<times> real" where
  "tunnel_radii_f g self ellipse_adjust =
     (let rad = of_int (py_int (fmul (fmul MAX_RAD_MULT (max_radius g)) (radius self)));
          thick = fmul (thickness self) (thickness_scale g);
          rad_x = fsub (fmul rad
                    (fmul MAX_ELLIPSE_ASPECT (fadd (ellipse_aspect self) ellipse_adjust)))
                    (fdiv thick 2);
          rad_y = fsub rad (fdiv thick 2)
      in (rad_x, rad_y, thick))"

definition advance_f :: "'a env \<Rightarrow> 'a Tunnel \<Rightarrow> 'a Tunnel \<times> real" where
  "advance_f env self =
     (let g = geometry env;
          xo = min (max (x_offset self) (- max_x_offset g)) (max_x_offset g);
          yo = min (max (y_offset self) (- max_y_offset g)) (max_y_offset g)
      in case update_anims_f env (anims self) 0 0 of
           (anims', rot_adjust, ellipse_adjust) \<Rightarrow>
             (self\<lparr>x_offset := xo, y_offset := yo, anims := anims',
                   curr_angle := float_rem
                     (fadd (curr_angle self)
                        (fmul (fadd (rot_speed self) rot_adjust) rot_speed_scale_f))
                     TWOPI_f\<rparr>,
              ellipse_adjust))"

definition display_f ::
  "'a env \<Rightarrow> 'a Tunnel \<Rightarrow> int \<Rightarrow> bool \<Rightarrow> 'a Tunnel \<times> (error + DrawCommand list)" where
  "display_f env self level_scale as_mask =
     (case advance_f env self of
        (self', ellipse_adjust) \<Rightarrow>
          (case tunnel_radii_f (geometry env) self' ellipse_adjust of
             (rad_x, rad_y, thick) \<Rightarrow>
               (self', draw_segments_with_animations_f env self' rad_x rad_y (segs self')
                         as_mask level_scale thick)))"

definition emitted_f :: "'a env \<Rightarrow> 'a Tunnel \<Rightarrow> int \<Rightarrow> bool \<Rightarrow> DrawCommand list" where
  "emitted_f env self level_scale as_mask =
     (case snd (display_f env self level_scale as_mask) of Inl _ \<Rightarrow> [] | Inr cs \<Rightarrow> cs)"

text \<open>The relative angles and the accumulators of one call, in double precision.\<close>

definition rel_angles_f :: "'a Tunnel \<Rightarrow> real list" where
  "rel_angles_f self =
     map (\<lambda>i. fmul (fdiv TWOPI_f (of_int (segs self))) (of_int i))
       (selected_segments (blacking self) (segs self))"

definition frame_adjustments_f :: "'a env \<Rightarrow> 'a Tunnel \<Rightarrow> adjustments" where
  "frame_adjustments_f env self =
     (let self' = fst (advance_f env self)
      in accumulate_f env (rel_angles_f self') (anims self'))"

subsection \<open>Doubles for evaluation\<close>

text \<open>The binary64 values that the literals 0.1, 0.2 and 0.3 denote.\<close>

definition dbl_0_1 :: real where
  "dbl_0_1 = 3602879701896397 / 2 ^ 55"

definition dbl_0_2 :: real where
  "dbl_0_2 = 3602879701896397 / 2 ^ 54"

definition dbl_0_3 :: real where
  "dbl_0_3 = 5404319552844595 / 2 ^ 54"

text \<open>
  The example tunnel with three Radius channels, in slots 0, 1 and 2, and with the
  thickness 0.6000000000000001.
\<close>

definition radius_tunnel :: "(AnimationTarget \<times> real) Tunnel" where
  "radius_tunnel =
     demo_tunnel\<lparr>thickness := 1351079888211149 / 2 ^ 51,
       anims := [(Radius, dbl_0_1), (Radius, dbl_0_2), (Radius, dbl_0_3), (OtherTarget, 5)]\<rparr>"

text \<open>
  The example tunnel turning backwards at the speed \<open>2 ^ - 53\<close>, with the color center 0
  and a Color channel that samples \<open>- 2 ^ - 52\<close>.
\<close>

definition edge_tunnel :: "(AnimationTarget \<times> real) Tunnel" where
  "edge_tunnel =
     demo_tunnel\<lparr>rot_speed := - (1 / 2 ^ 53), col_center := 0,
       anims := [(Color, - (1 / 2 ^ 52)), (Radius, 3), (OtherTarget, 5), (PositionX, 1 / 2)]\<rparr>"

section \<open>Properties\<close>

subsection \<open>Segment selection\<close>

lemma selected_segments_2_8: "selected_segments 2 8 = [0, 2, 4, 6]"
  by code_simp

lemma selected_segments_m1_8: "selected_segments (- 1) 8 = [0, 1, 2, 3, 4, 5, 6, 7]"
  by code_simp

lemma selected_segments_m3_9: "selected_segments (- 3) 9 = [1, 2, 4, 5, 7, 8]"
  by code_simp

text \<open>
  C1. For a blacking value \<open>b\<close> in [-16, 16] and a segment count \<open>n \<ge> 1\<close>, the indices
  selected for drawing are all of \<open>0 .. n - 1\<close> when \<open>b = -1\<close>, those with
  \<open>i mod max b 1 = 0\<close> when \<open>b \<ge> 0\<close>, and those with \<open>i mod |b| \<noteq> 0\<close> when \<open>b < -1\<close>.
\<close>

theorem selected_segments_formula:
  assumes "- 16 \<le> b" and "b \<le> 16" and "1 \<le> n"
  shows "set (selected_segments b n) =
     (if b = - 1 then {0 .. n - 1}
      else if 0 \<le> b then {i \<in> {0 .. n - 1}. i mod max b 1 = 0}
      else {i \<in> {0 .. n - 1}. i mod \<bar>b\<bar> \<noteq> 0})"
  using assms
  by (auto simp: selected_segments_def draw_segment_def blacking_divisor_def max_def)

text \<open>The three examples of the specification: 8 segments with blacking 2 and -1, 9 with -3.\<close>

theorem selected_segments_formula_witness:
  "set (selected_segments 2 8) = {0, 2, 4, 6}
   \<and> set (selected_segments (- 1) 8) = {0 .. 7}
   \<and> set (selected_segments (- 3) 9) = {1, 2, 4, 5, 7, 8}"
  using selected_segments_formula [of 2 8] selected_segments_formula [of "- 1" 8]
    selected_segments_formula [of "- 3" 9]
  by (simp add: selected_segments_2_8 selected_segments_m1_8 selected_segments_m3_9)

subsection \<open>The frame loop of display\<close>

lemma update_anims_eq:
  "update_anims env as r e =
     (map (update_state env) as,
      r + rot_total env (map (update_state env) as),
      e + ell_total env (map (update_state env) as))"
  by (induction as arbitrary: r e) (simp_all add: rot_total_def ell_total_def Let_def)

lemma advance_eq:
  "advance env self =
     (self\<lparr>x_offset := min (max (x_offset self) (- max_x_offset (geometry env)))
                          (max_x_offset (geometry env)),
           y_offset := min (max (y_offset self) (- max_y_offset (geometry env)))
                          (max_y_offset (geometry env)),
           anims := map (update_state env) (anims self),
           curr_angle := py_fmod
             (curr_angle self
                + (rot_speed self + rot_total env (map (update_state env) (anims self)))
                  * rot_speed_scale) TWOPI\<rparr>,
      ell_total env (map (update_state env) (anims self)))"
  by (simp add: advance_def Let_def update_anims_eq)

lemma display_fst: "fst (display env self lvl m) = fst (advance env self)"
  by (simp add: display_def split: prod.splits)

lemma display_snd:
  "snd (display env self lvl m) =
     (case tunnel_radii (geometry env) (fst (advance env self)) (snd (advance env self)) of
        (rad_x, rad_y, thick) \<Rightarrow>
          draw_segments_with_animations env (fst (advance env self)) rad_x rad_y
            (segs (fst (advance env self))) m lvl thick)"
  by (simp add: display_def split: prod.splits)

subsection \<open>The vectors of the segment renderer\<close>

lemma sized_no_adjustments: "sized n (no_adjustments n)"
  by (simp add: sized_def no_adjustments_def zeros_def)

lemma sized_route: "sized (length rel) acc \<Longrightarrow> sized (length rel) (route env rel a acc)"
  by (cases "target env a")
    (simp_all add: sized_def route_def vadd_def sadd_def get_value_vector_def)

lemma sized_fold_route:
  "sized (length rel) acc \<Longrightarrow> sized (length rel) (fold (route env rel) as acc)"
  by (induction as arbitrary: acc) (simp_all add: sized_route)

lemma sized_accumulate: "sized (length rel) (accumulate env rel as)"
  by (simp add: accumulate_def sized_fold_route sized_no_adjustments)


lemma rel_angles_advance: "rel_angles (fst (advance env self)) = rel_angles self"
  by (simp add: rel_angles_def advance_eq)

text \<open>The commands of a call, read off the vectors position by position.\<close>

lemma emitted_length:
  "length (emitted env self lvl m) = (if segs self = 0 then 0 else length (rel_angles self))"
  using sized_accumulate [of "rel_angles self" env "map (update_state env) (anims self)"]
  by (simp add: emitted_def display_snd advance_eq draw_segments_with_animations_def Let_def
      rel_angles_def sized_def sawtooth_vector_def split_beta)

lemma emitted_mask_nth:
  assumes "k < length (emitted env self lvl True)"
  shows "emitted env self lvl True ! k =
     (let self' = fst (advance env self);
          acc = frame_adjustments env self;
          rad = tunnel_radii (geometry env) self' (snd (advance env self));
          rot_interval = TWOPI / of_int (segs self);
          seg_angle = rel_angles self ! k + curr_angle self'
      in \<lparr>dc_level = 255,
          dc_stroke = \<bar>snd (snd rad) * (1 + thickness_adjust acc ! k / 127)\<bar>,
          dc_hue = 0, dc_sat = 0, dc_val = 0,
          dc_x = x_center (geometry env) + x_offset self' + py_int (x_adjust acc),
          dc_y = y_center (geometry env) + y_offset self' + py_int (y_adjust acc),
          dc_rad_x = py_int \<bar>fst rad + rad_adjust acc ! k\<bar>,
          dc_rad_y = py_int \<bar>fst (snd rad) + rad_adjust acc ! k\<bar>,
          dc_start = seg_angle, dc_stop = seg_angle + rot_interval\<rparr>)"
proof -
  have nz: "segs self \<noteq> 0" and k: "k < length (rel_angles self)"
    using assms by (simp_all add: emitted_length split: if_splits)
  note sz = sized_accumulate [of "rel_angles self" env "map (update_state env) (anims self)"]
  show ?thesis
    using nz k sz
    by (simp add: emitted_def display_snd frame_adjustments_def rel_angles_advance
        draw_segments_with_animations_def Let_def sized_def mask_arc_def advance_eq
        rel_angles_def split_beta)
qed

lemma emitted_colour_nth:
  assumes "k < length (emitted env self lvl False)"
  shows "emitted env self lvl False ! k =
     (let self' = fst (advance env self);
          acc = frame_adjustments env self;
          rad = tunnel_radii (geometry env) self' (snd (advance env self));
          rot_interval = TWOPI / of_int (segs self);
          seg_angle = rel_angles self ! k + curr_angle self'
      in \<lparr>dc_level = lvl,
          dc_stroke = \<bar>snd (snd rad) * (1 + thickness_adjust acc ! k / 127)\<bar>,
          dc_hue = py_fmod
            (255 * col_center self + col_center_adjust acc ! k
               + (127 * col_width self + col_width_adjust acc ! k)
                 * sawtooth env
                     (rel_angles self ! k * (16 * col_spread self + col_period_adjust acc ! k)) 0)
            256,
          dc_sat = 255 * col_sat self + col_sat_adjust acc ! k,
          dc_val = 255,
          dc_x = x_center (geometry env) + x_offset self' + py_int (x_adjust acc),
          dc_y = y_center (geometry env) + y_offset self' + py_int (y_adjust acc),
          dc_rad_x = py_int \<bar>fst rad + rad_adjust acc ! k\<bar>,
          dc_rad_y = py_int \<bar>fst (snd rad) + rad_adjust acc ! k\<bar>,
          dc_start = seg_angle, dc_stop = seg_angle + rot_interval\<rparr>)"
proof -
  have nz: "segs self \<noteq> 0" and k: "k < length (rel_angles self)"
    using assms by (simp_all add: emitted_length split: if_splits)
  note sz = sized_accumulate [of "rel_angles self" env "map (update_state env) (anims self)"]
  show ?thesis
    using nz k sz
    by (simp add: emitted_def display_snd frame_adjustments_def rel_angles_advance
        draw_segments_with_animations_def Let_def sized_def colour_arc_def advance_eq
        rel_angles_def split_beta sawtooth_vector_def)
qed

subsection \<open>The example configuration, evaluated\<close>

lemma demo_advance: "advance demo_env demo_tunnel = (demo_tunnel, 0)"
  by (simp add: advance_def demo_env_def demo_tunnel_def demo_geometry_def py_fmod_def Let_def)

lemma demo_segments: "selected_segments 2 4 = [0, 2]"
  by code_simp

lemma demo_rel_angles: "rel_angles demo_tunnel = [0, pi]"
  by (simp add: rel_angles_def demo_tunnel_def demo_segments TWOPI_def)

lemma demo_accumulate:
  "accumulate demo_env [0, pi] (anims demo_tunnel) =
     \<lparr>rad_adjust = [3, 3], thickness_adjust = [0, 0], col_center_adjust = [200, 200],
      col_width_adjust = [0, 0], col_period_adjust = [0, 0], col_sat_adjust = [0, 0],
      x_adjust = 7 / 10, y_adjust = 0\<rparr>"
  by (simp add: accumulate_def demo_env_def demo_tunnel_def demo_geometry_def route_def
      no_adjustments_def zeros_def vadd_def sadd_def get_value_vector_def numeral_2_eq_2)

lemma demo_frame_adjustments:
  "frame_adjustments demo_env demo_tunnel =
     \<lparr>rad_adjust = [3, 3], thickness_adjust = [0, 0], col_center_adjust = [200, 200],
      col_width_adjust = [0, 0], col_period_adjust = [0, 0], col_sat_adjust = [0, 0],
      x_adjust = 7 / 10, y_adjust = 0\<rparr>"
  by (simp add: frame_adjustments_def demo_advance demo_rel_angles demo_accumulate)

lemma demo_radii: "tunnel_radii demo_geometry demo_tunnel 0 = (7 / 4, 3 / 4, 1 / 2)"
  by (simp add: tunnel_radii_def demo_geometry_def demo_tunnel_def MAX_RAD_MULT_def
      MAX_ELLIPSE_ASPECT_def py_int_def)

lemma demo_emitted_length: "length (emitted demo_env demo_tunnel lvl m) = 2"
  by (simp add: emitted_length demo_rel_angles) (simp add: demo_tunnel_def)

lemma demo_display_mask:
  "display demo_env demo_tunnel lvl True = (demo_tunnel, Inr
     [\<lparr>dc_level = 255, dc_stroke = 1 / 2, dc_hue = 0, dc_sat = 0, dc_val = 0,
       dc_x = 127, dc_y = 100, dc_rad_x = 4, dc_rad_y = 3, dc_start = 0, dc_stop = pi / 2\<rparr>,
      \<lparr>dc_level = 255, dc_stroke = 1 / 2, dc_hue = 0, dc_sat = 0, dc_val = 0,
       dc_x = 127, dc_y = 100, dc_rad_x = 4, dc_rad_y = 3, dc_start = pi,
       dc_stop = 3 * pi / 2\<rparr>])"
  using demo_rel_angles demo_accumulate
  apply (simp add: display_def demo_advance)
  apply (simp add: demo_env_def demo_radii)
  apply (simp add: draw_segments_with_animations_def Let_def rel_angles_def)
  apply (simp add: demo_tunnel_def demo_segments demo_geometry_def TWOPI_def mask_arc_def
      py_int_def)
  done

lemma demo_display_colour:
  "display demo_env demo_tunnel lvl False = (demo_tunnel, Inr
     [\<lparr>dc_level = lvl, dc_stroke = 1 / 2, dc_hue = 143 / 2, dc_sat = 0, dc_val = 255,
       dc_x = 127, dc_y = 100, dc_rad_x = 4, dc_rad_y = 3, dc_start = 0, dc_stop = pi / 2\<rparr>,
      \<lparr>dc_level = lvl, dc_stroke = 1 / 2, dc_hue = 143 / 2, dc_sat = 0, dc_val = 255,
       dc_x = 127, dc_y = 100, dc_rad_x = 4, dc_rad_y = 3, dc_start = pi,
       dc_stop = 3 * pi / 2\<rparr>])"
  using demo_rel_angles demo_accumulate
  apply (simp add: display_def demo_advance)
  apply (simp add: demo_env_def demo_radii)
  apply (simp add: draw_segments_with_animations_def Let_def rel_angles_def)
  apply (simp add: demo_tunnel_def demo_segments demo_geometry_def TWOPI_def colour_arc_def
      py_int_def py_fmod_def sawtooth_vector_def)
  done

lemma demo_emitted_mask:
  "emitted demo_env demo_tunnel lvl True =
     [\<lparr>dc_level = 255, dc_stroke = 1 / 2, dc_hue = 0, dc_sat = 0, dc_val = 0,
       dc_x = 127, dc_y = 100, dc_rad_x = 4, dc_rad_y = 3, dc_start = 0, dc_stop = pi / 2\<rparr>,
      \<lparr>dc_level = 255, dc_stroke = 1 / 2, dc_hue = 0, dc_sat = 0, dc_val = 0,
       dc_x = 127, dc_y = 100, dc_rad_x = 4, dc_rad_y = 3, dc_start = pi,
       dc_stop = 3 * pi / 2\<rparr>]"
  by (simp add: emitted_def demo_display_mask)

lemma demo_emitted_colour:
  "emitted demo_env demo_tunnel lvl False =
     [\<lparr>dc_level = lvl, dc_stroke = 1 / 2, dc_hue = 143 / 2, dc_sat = 0, dc_val = 255,
       dc_x = 127, dc_y = 100, dc_rad_x = 4, dc_rad_y = 3, dc_start = 0, dc_stop = pi / 2\<rparr>,
      \<lparr>dc_level = lvl, dc_stroke = 1 / 2, dc_hue = 143 / 2, dc_sat = 0, dc_val = 255,
       dc_x = 127, dc_y = 100, dc_rad_x = 4, dc_rad_y = 3, dc_start = pi,
       dc_stop = 3 * pi / 2\<rparr>]"
  by (simp add: emitted_def demo_display_colour)

subsection \<open>Mask mode\<close>

text \<open>
  C2. In mask mode every emitted draw command has level 255, hue 0, saturation 0 and
  value 0, and the commands are the same for every value of the level argument.
\<close>

theorem mask_commands_fixed:
  assumes "k < length (emitted env self level_scale True)"
  shows "dc_level (emitted env self level_scale True ! k) = 255
     \<and> dc_hue (emitted env self level_scale True ! k) = 0
     \<and> dc_sat (emitted env self level_scale True ! k) = 0
     \<and> dc_val (emitted env self level_scale True ! k) = 0
     \<and> emitted env self level_scale True = emitted env self other_level True"
proof -
  have fields: "dc_level (emitted env self level_scale True ! k) = 255
     \<and> dc_hue (emitted env self level_scale True ! k) = 0
     \<and> dc_sat (emitted env self level_scale True ! k) = 0
     \<and> dc_val (emitted env self level_scale True ! k) = 0"
    by (simp add: emitted_mask_nth [OF assms] Let_def)
  have same: "emitted env self level_scale True = emitted env self other_level True"
  proof (rule nth_equalityI)
    show "length (emitted env self level_scale True) = length (emitted env self other_level True)"
      by (simp add: emitted_length)
  next
    fix i
    assume i: "i < length (emitted env self level_scale True)"
    then have i': "i < length (emitted env self other_level True)"
      by (simp add: emitted_length)
    show "emitted env self level_scale True ! i = emitted env self other_level True ! i"
      by (simp only: emitted_mask_nth [OF i] emitted_mask_nth [OF i'])
  qed
  from fields same show ?thesis by simp
qed

text \<open>The first command of the example tunnel drawn as a mask, at levels 7 and 200.\<close>

theorem mask_commands_fixed_witness:
  "0 < length (emitted demo_env demo_tunnel 7 True)
   \<and> dc_level (emitted demo_env demo_tunnel 7 True ! 0) = 255
   \<and> dc_hue (emitted demo_env demo_tunnel 7 True ! 0) = 0
   \<and> dc_sat (emitted demo_env demo_tunnel 7 True ! 0) = 0
   \<and> dc_val (emitted demo_env demo_tunnel 7 True ! 0) = 0
   \<and> emitted demo_env demo_tunnel 7 True = emitted demo_env demo_tunnel 200 True"
proof -
  have h: "0 < length (emitted demo_env demo_tunnel 7 True)"
    by (simp add: demo_emitted_length)
  show ?thesis
    using h mask_commands_fixed [OF h, of 200] by blast
qed

subsection \<open>The center of the arcs\<close>

text \<open>
  C6, as the specification states it, fails: the accumulated position adjustment is not
  rounded to the nearest integer. In the example the PositionX channel contributes 0.7;
  the arcs are centered at 127, not at 127 + 1.
\<close>

theorem center_rounding_counterexample:
  "0 < length (emitted demo_env demo_tunnel 255 False)
   \<and> x_adjust (frame_adjustments demo_env demo_tunnel) = 7 / 10
   \<and> dc_x (emitted demo_env demo_tunnel 255 False ! 0) = 127
   \<and> dc_x (emitted demo_env demo_tunnel 255 False ! 0) \<noteq>
       x_center (geometry demo_env) + x_offset (fst (display demo_env demo_tunnel 255 False))
         + round (x_adjust (frame_adjustments demo_env demo_tunnel))"
proof -
  have "round (7 / 10 :: real) = 1"
    by (simp add: round_def)
  then show ?thesis
    by (simp add: demo_frame_adjustments demo_emitted_colour demo_display_colour)
      (simp add: demo_env_def demo_geometry_def demo_tunnel_def)
qed

text \<open>
  C6, amended. The center of every emitted draw command is the geometry's center plus the
  clamped offset plus the accumulated position adjustment truncated toward zero, on both
  axes and in both modes.
\<close>

theorem center_truncates:
  assumes "k < length (emitted env self level_scale as_mask)"
  shows "dc_x (emitted env self level_scale as_mask ! k) =
       x_center (geometry env) + x_offset (fst (display env self level_scale as_mask))
         + py_int (x_adjust (frame_adjustments env self))
     \<and> dc_y (emitted env self level_scale as_mask ! k) =
       y_center (geometry env) + y_offset (fst (display env self level_scale as_mask))
         + py_int (y_adjust (frame_adjustments env self))"
proof (cases as_mask)
  case True
  with assms have k: "k < length (emitted env self level_scale True)" by simp
  show ?thesis
    using True by (simp add: emitted_mask_nth [OF k] Let_def display_fst)
next
  case False
  with assms have k: "k < length (emitted env self level_scale False)" by simp
  show ?thesis
    using False by (simp add: emitted_colour_nth [OF k] Let_def display_fst)
qed

theorem center_truncates_witness:
  "0 < length (emitted demo_env demo_tunnel 255 False)
   \<and> py_int (x_adjust (frame_adjustments demo_env demo_tunnel)) = 0
   \<and> dc_x (emitted demo_env demo_tunnel 255 False ! 0) = 127
   \<and> dc_y (emitted demo_env demo_tunnel 255 False ! 0) = 100"
proof -
  have h: "0 < length (emitted demo_env demo_tunnel 255 False)"
    by (simp add: demo_emitted_length)
  show ?thesis
    using h center_truncates [OF h]
    by (simp add: demo_frame_adjustments demo_emitted_colour py_int_def)
qed

subsection \<open>Mask flag and level against geometry\<close>

text \<open>
  C10. A call with the mask flag set and a call without it, at any two levels, leave the
  same tunnel, fail together, and emit equally many commands that agree position by
  position on stroke weight, center, both radii and both angles.
\<close>

theorem mask_flag_keeps_geometry:
  "fst (display env self lvl True) = fst (display env self lvl' False)
   \<and> (snd (display env self lvl True) = Inl ZeroDivisionError) =
      (snd (display env self lvl' False) = Inl ZeroDivisionError)
   \<and> length (emitted env self lvl True) = length (emitted env self lvl' False)
   \<and> map geometry_of (emitted env self lvl True) = map geometry_of (emitted env self lvl' False)"
proof -
  have st: "fst (display env self lvl True) = fst (display env self lvl' False)"
    by (simp add: display_fst)
  have err: "(snd (display env self lvl True) = Inl ZeroDivisionError) =
      (snd (display env self lvl' False) = Inl ZeroDivisionError)"
    by (simp add: display_snd draw_segments_with_animations_def Let_def split_beta advance_eq)
  have len: "length (emitted env self lvl True) = length (emitted env self lvl' False)"
    by (simp add: emitted_length)
  have geo: "map geometry_of (emitted env self lvl True)
      = map geometry_of (emitted env self lvl' False)"
  proof (rule nth_equalityI)
    show "length (map geometry_of (emitted env self lvl True))
        = length (map geometry_of (emitted env self lvl' False))"
      using len by simp
  next
    fix i
    assume "i < length (map geometry_of (emitted env self lvl True))"
    then have i: "i < length (emitted env self lvl True)" by simp
    with len have i': "i < length (emitted env self lvl' False)" by simp
    show "map geometry_of (emitted env self lvl True) ! i
        = map geometry_of (emitted env self lvl' False) ! i"
      using i i'
      by (simp add: emitted_mask_nth [OF i] emitted_colour_nth [OF i'] geometry_of_def Let_def)
  qed
  from st err len geo show ?thesis by blast
qed

theorem mask_flag_keeps_geometry_witness:
  "emitted demo_env demo_tunnel 255 True \<noteq> []
   \<and> emitted demo_env demo_tunnel 255 True \<noteq> emitted demo_env demo_tunnel 9 False
   \<and> length (emitted demo_env demo_tunnel 255 True) = length (emitted demo_env demo_tunnel 9 False)
   \<and> map geometry_of (emitted demo_env demo_tunnel 255 True)
       = map geometry_of (emitted demo_env demo_tunnel 9 False)"
proof -
  have ne: "emitted demo_env demo_tunnel 255 True \<noteq> []"
    and diff: "emitted demo_env demo_tunnel 255 True \<noteq> emitted demo_env demo_tunnel 9 False"
    by (simp_all add: demo_emitted_mask demo_emitted_colour)
  show ?thesis
    using ne diff mask_flag_keeps_geometry [of demo_env demo_tunnel 255 9] by blast
qed

subsection \<open>Division\<close>

lemma blacking_divisor_pos: "1 \<le> blacking_divisor b"
  by (simp add: blacking_divisor_def Let_def)

text \<open>
  C3, as the specification states it, fails: with a segment count of 0 the division of
  line 188 raises. The example tunnel with \<open>segs = 0\<close>:
\<close>

theorem zero_segments_counterexample:
  "snd (display demo_env (demo_tunnel\<lparr>segs := 0\<rparr>) 255 False) = Inl ZeroDivisionError"
  by (simp add: display_snd draw_segments_with_animations_def Let_def split_beta advance_eq)

text \<open>
  C3, amended. For every blacking value the divisor of the selection is at least 1, and
  when the segment count is not 0 the call raises no division fault: it runs to
  completion and returns its draw commands.
\<close>

theorem display_no_division_fault:
  assumes "segs self \<noteq> 0"
  shows "1 \<le> blacking_divisor (blacking self)
     \<and> snd (display env self level_scale as_mask) = Inr (emitted env self level_scale as_mask)"
  using assms
  by (simp add: blacking_divisor_pos emitted_def display_snd draw_segments_with_animations_def
      Let_def split_beta advance_eq)

theorem display_no_division_fault_witness:
  "segs (demo_tunnel\<lparr>blacking := 0\<rparr>) \<noteq> 0
   \<and> blacking_divisor (blacking (demo_tunnel\<lparr>blacking := 0\<rparr>)) = 1
   \<and> snd (display demo_env (demo_tunnel\<lparr>blacking := 0\<rparr>) 255 False)
       = Inr (emitted demo_env (demo_tunnel\<lparr>blacking := 0\<rparr>) 255 False)"
proof -
  have h: "segs (demo_tunnel\<lparr>blacking := 0\<rparr>) \<noteq> 0"
    by (simp add: demo_tunnel_def)
  have d: "blacking_divisor (blacking (demo_tunnel\<lparr>blacking := 0\<rparr>)) = 1"
    by (simp add: blacking_divisor_def)
  show ?thesis
    using h d display_no_division_fault [OF h, of demo_env 255 False] by blast
qed

subsection \<open>The radii handed to the segment renderer\<close>







subsection \<open>How a call depends on the bank of animations\<close>

text \<open>
  The animations enter a call through the two sums of the frame loop and through the
  accumulators of the segment loop, and through nothing else.
\<close>

lemma display_snd_anims_cong:
  assumes "rot_total env (map (update_state env) as1) = rot_total env (map (update_state env) as2)"
    and "ell_total env (map (update_state env) as1) = ell_total env (map (update_state env) as2)"
    and "\<And>rel. accumulate env rel (map (update_state env) as1)
           = accumulate env rel (map (update_state env) as2)"
  shows "snd (display env (self\<lparr>anims := as1\<rparr>) lvl m)
       = snd (display env (self\<lparr>anims := as2\<rparr>) lvl m)"
  by (simp add: display_snd advance_eq tunnel_radii_def draw_segments_with_animations_def
      Let_def split_beta assms)

lemma display_fst_anims_cong:
  assumes "rot_total env (map (update_state env) as1) = rot_total env (map (update_state env) as2)"
  shows "fst (display env (self\<lparr>anims := as1\<rparr>) lvl m)
       = (fst (display env (self\<lparr>anims := as2\<rparr>) lvl m))
           \<lparr>anims := map (update_state env) as1\<rparr>"
  by (simp add: display_fst advance_eq assms)

subsection \<open>A target that matches no branch\<close>

lemma route_other: "target env a = OtherTarget \<Longrightarrow> route env rel a acc = acc"
  by (simp add: route_def)

lemma accumulate_other:
  assumes "target env a = OtherTarget"
  shows "accumulate env rel (xs @ a # ys) = accumulate env rel (xs @ ys)"
  by (simp add: accumulate_def route_other [OF assms])

lemma totals_other:
  assumes "target env a = OtherTarget"
  shows "rot_total env (xs @ a # ys) = rot_total env (xs @ ys)"
    and "ell_total env (xs @ a # ys) = ell_total env (xs @ ys)"
  using assms by (simp_all add: rot_total_def ell_total_def)

lemma demo_tunnel_anims:
  "demo_tunnel
     = demo_tunnel\<lparr>anims := [(PositionX, 7 / 10), (Radius, 3)] @ (OtherTarget, 5) # [(Color, 200)]\<rparr>"
  by (simp add: demo_tunnel_def)

text \<open>
  C8, as the specification states it, fails: nothing reports a target that matches no
  branch. The third animation of the example has such a target; the call raises nothing,
  leaves the tunnel as it was and emits the commands it emits without that animation.
\<close>

theorem unrecognized_target_counterexample:
  "target demo_env (update_state demo_env (anims demo_tunnel ! 2)) = OtherTarget
   \<and> fst (display demo_env demo_tunnel 255 False) = demo_tunnel
   \<and> snd (display demo_env demo_tunnel 255 False)
       = Inr (emitted demo_env demo_tunnel 255 False)
   \<and> snd (display demo_env demo_tunnel 255 False)
       = snd (display demo_env
           (demo_tunnel\<lparr>anims := [(PositionX, 7 / 10), (Radius, 3), (Color, 200)]\<rparr>) 255 False)"
proof -
  have t: "target demo_env (update_state demo_env (anims demo_tunnel ! 2)) = OtherTarget"
    by (simp add: demo_env_def demo_tunnel_def)
  have o: "target demo_env (update_state demo_env (OtherTarget, 5)) = OtherTarget"
    by (simp add: demo_env_def)
  have s: "fst (display demo_env demo_tunnel 255 False) = demo_tunnel"
    by (simp add: demo_display_colour)
  have r: "snd (display demo_env demo_tunnel 255 False)
       = Inr (emitted demo_env demo_tunnel 255 False)"
    by (simp add: demo_display_colour demo_emitted_colour)
  have "snd (display demo_env
           (demo_tunnel\<lparr>anims := [(PositionX, 7 / 10), (Radius, 3)] @ (OtherTarget, 5)
              # [(Color, 200)]\<rparr>) 255 False)
       = snd (display demo_env
           (demo_tunnel\<lparr>anims := [(PositionX, 7 / 10), (Radius, 3)] @ [(Color, 200)]\<rparr>)
           255 False)"
    by (rule display_snd_anims_cong)
      (simp_all only: map_append list.map totals_other [OF o] accumulate_other [OF o])
  then have e: "snd (display demo_env demo_tunnel 255 False)
       = snd (display demo_env
           (demo_tunnel\<lparr>anims := [(PositionX, 7 / 10), (Radius, 3), (Color, 200)]\<rparr>) 255 False)"
    using demo_tunnel_anims by simp
  from t s r e show ?thesis by blast
qed

text \<open>
  C8, amended. An animation whose target, when it is read, is none of the ten routed
  targets is advanced and otherwise ignored: the call raises or returns exactly as it does
  without that animation, with the same draw commands, and the tunnel it leaves differs
  only in holding the advanced animation.
\<close>

theorem unrecognized_target_ignored:
  assumes "target env (update_state env a) = OtherTarget"
  shows "snd (display env (self\<lparr>anims := xs @ a # ys\<rparr>) level_scale as_mask)
       = snd (display env (self\<lparr>anims := xs @ ys\<rparr>) level_scale as_mask)
     \<and> fst (display env (self\<lparr>anims := xs @ a # ys\<rparr>) level_scale as_mask)
       = (fst (display env (self\<lparr>anims := xs @ ys\<rparr>) level_scale as_mask))
           \<lparr>anims := map (update_state env) (xs @ a # ys)\<rparr>"
proof
  show "snd (display env (self\<lparr>anims := xs @ a # ys\<rparr>) level_scale as_mask)
       = snd (display env (self\<lparr>anims := xs @ ys\<rparr>) level_scale as_mask)"
    by (rule display_snd_anims_cong)
      (simp_all only: map_append list.map totals_other [OF assms] accumulate_other [OF assms])
  show "fst (display env (self\<lparr>anims := xs @ a # ys\<rparr>) level_scale as_mask)
       = (fst (display env (self\<lparr>anims := xs @ ys\<rparr>) level_scale as_mask))
           \<lparr>anims := map (update_state env) (xs @ a # ys)\<rparr>"
    by (rule display_fst_anims_cong)
      (simp only: map_append list.map totals_other [OF assms])
qed

theorem unrecognized_target_ignored_witness:
  "target demo_env (update_state demo_env (OtherTarget, 5)) = OtherTarget
   \<and> snd (display demo_env
        (demo_tunnel\<lparr>anims := [(PositionX, 7 / 10), (Radius, 3)] @ (OtherTarget, 5)
           # [(Color, 200)]\<rparr>) 255 True)
     = snd (display demo_env
        (demo_tunnel\<lparr>anims := [(PositionX, 7 / 10), (Radius, 3)] @ [(Color, 200)]\<rparr>)
        255 True)"
proof -
  have h: "target demo_env (update_state demo_env (OtherTarget, 5)) = OtherTarget"
    by (simp add: demo_env_def)
  show ?thesis
    using h unrecognized_target_ignored [OF h, where self = demo_tunnel
        and xs = "[(PositionX, 7 / 10), (Radius, 3)]" and ys = "[(Color, 200)]"
        and level_scale = 255 and as_mask = True]
    by blast
qed

section \<open>Properties that depend on rounding\<close>

subsection \<open>Evaluating the rounding\<close>

lemma ulp_eval:
  assumes "2 powr of_int e \<le> \<bar>x\<bar>" and "\<bar>x\<bar> < 2 powr (of_int e + 1)" and "- 1022 \<le> e"
  shows "ulp x = 2 powr (of_int e - 52)"
proof -
  have pos: "0 < \<bar>x\<bar>"
    using assms(1) by (smt (verit) powr_gt_zero)
  have "\<lfloor>log 2 \<bar>x\<bar>\<rfloor> = e"
    using pos assms(1,2) by (simp add: floor_log_eq_powr_iff)
  then show ?thesis
    using assms(3) by (simp add: ulp_def)
qed

lemma fl_eval:
  assumes "2 powr of_int e \<le> \<bar>x\<bar>" and "\<bar>x\<bar> < 2 powr (of_int e + 1)" and "- 1022 \<le> e"
  shows "fl x = 2 powr (of_int e - 52) * of_int (rne (x * 2 powr (52 - of_int e)))"
proof -
  have "x \<noteq> 0"
    using assms(1) by (smt (verit) powr_gt_zero)
  moreover have "x / 2 powr (of_int e - 52) = x * 2 powr (52 - of_int e)"
    by (simp add: powr_diff field_simps)
  ultimately show ?thesis
    by (simp add: fl_def ulp_eval [OF assms])
qed

lemma fl_zero: "fl 0 = 0"
  by (simp add: fl_def)

text \<open>The doubles 0.1, 0.2 and 0.3 and their sums in the two orders.\<close>

lemma fadd_0_dbl_0_1: "fadd 0 dbl_0_1 = dbl_0_1"
  unfolding fadd_def dbl_0_1_def
  by (subst fl_eval [where e = "- 4"]) (simp_all add: powr_neg_numeral rne_def)

lemma fadd_0_dbl_0_3: "fadd 0 dbl_0_3 = dbl_0_3"
  unfolding fadd_def dbl_0_3_def
  by (subst fl_eval [where e = "- 2"]) (simp_all add: powr_neg_numeral rne_def)

lemma fadd_dbl_0_1_0_2: "fadd dbl_0_1 dbl_0_2 = 1351079888211149 / 2 ^ 52"
  unfolding fadd_def dbl_0_1_def dbl_0_2_def
  by (subst fl_eval [where e = "- 2"]) (simp_all add: powr_neg_numeral rne_def)

lemma fadd_dbl_0_3_0_2: "fadd dbl_0_3 dbl_0_2 = 1 / 2"
  unfolding fadd_def dbl_0_3_def dbl_0_2_def
  by (subst fl_eval [where e = "- 1"]) (simp_all add: powr_neg_numeral rne_def)

lemma fadd_0_1_0_2_0_3: "fadd (1351079888211149 / 2 ^ 52) dbl_0_3 = 1351079888211149 / 2 ^ 51"
  unfolding fadd_def dbl_0_3_def
  by (subst fl_eval [where e = "- 1"]) (simp_all add: powr_neg_numeral rne_def)

lemma fadd_0_3_0_2_0_1: "fadd (1 / 2) dbl_0_1 = 5404319552844595 / 2 ^ 53"
  unfolding fadd_def dbl_0_1_def
  by (subst fl_eval [where e = "- 1"]) (simp_all add: powr_neg_numeral rne_def)

subsection \<open>The frame loop and the vectors in double precision\<close>

lemma update_anims_f_fst:
  "fst (update_anims_f env as r e) = map (update_state env) as"
  by (induction as arbitrary: r e) (simp_all add: Let_def split_beta)

lemma advance_f_eq:
  "advance_f env self =
     (self\<lparr>x_offset := min (max (x_offset self) (- max_x_offset (geometry env)))
                          (max_x_offset (geometry env)),
           y_offset := min (max (y_offset self) (- max_y_offset (geometry env)))
                          (max_y_offset (geometry env)),
           anims := map (update_state env) (anims self),
           curr_angle := float_rem
             (fadd (curr_angle self)
                (fmul (fadd (rot_speed self)
                         (fst (snd (update_anims_f env (anims self) 0 0))))
                   rot_speed_scale_f)) TWOPI_f\<rparr>,
      snd (snd (update_anims_f env (anims self) 0 0)))"
  using update_anims_f_fst [of env "anims self" 0 0]
  by (simp add: advance_f_def Let_def split_beta)


lemma display_f_snd:
  "snd (display_f env self lvl m) =
     (case tunnel_radii_f (geometry env) (fst (advance_f env self)) (snd (advance_f env self)) of
        (rad_x, rad_y, thick) \<Rightarrow>
          draw_segments_with_animations_f env (fst (advance_f env self)) rad_x rad_y
            (segs (fst (advance_f env self))) m lvl thick)"
  by (simp add: display_f_def split_beta)

lemma sized_route_f:
  "sized (length rel) acc \<Longrightarrow> sized (length rel) (route_f env rel a acc)"
  by (cases "target env a")
    (simp_all add: sized_def route_f_def vadd_f_def sadd_f_def get_value_vector_def)

lemma sized_fold_route_f:
  "sized (length rel) acc \<Longrightarrow> sized (length rel) (fold (route_f env rel) as acc)"
  by (induction as arbitrary: acc) (simp_all add: sized_route_f)

lemma sized_accumulate_f: "sized (length rel) (accumulate_f env rel as)"
  by (simp add: accumulate_f_def sized_fold_route_f sized_no_adjustments)

lemma rel_angles_f_advance: "rel_angles_f (fst (advance_f env self)) = rel_angles_f self"
  by (simp add: rel_angles_f_def advance_f_eq)

lemma emitted_f_length:
  "length (emitted_f env self lvl m) = (if segs self = 0 then 0 else length (rel_angles_f self))"
  using sized_accumulate_f [of "rel_angles_f self" env "map (update_state env) (anims self)"]
  by (simp add: emitted_f_def display_f_snd advance_f_eq draw_segments_with_animations_f_def
      Let_def rel_angles_f_def sized_def sawtooth_vector_def split_beta)

lemma emitted_f_mask_rad_y:
  assumes "k < length (emitted_f env self lvl True)"
  shows "dc_rad_y (emitted_f env self lvl True ! k) =
     py_int \<bar>fadd
       (fst (snd (tunnel_radii_f (geometry env) (fst (advance_f env self))
          (snd (advance_f env self)))))
       (rad_adjust (frame_adjustments_f env self) ! k)\<bar>"
proof -
  have nz: "segs self \<noteq> 0" and k: "k < length (rel_angles_f self)"
    using assms by (simp_all add: emitted_f_length split: if_splits)
  note sz = sized_accumulate_f [of "rel_angles_f self" env "map (update_state env) (anims self)"]
  show ?thesis
    using nz k sz
    by (simp add: emitted_f_def display_f_snd frame_adjustments_f_def rel_angles_f_advance
        draw_segments_with_animations_f_def Let_def sized_def mask_arc_def advance_f_eq
        rel_angles_f_def split_beta)
qed

lemma emitted_f_colour_hue:
  assumes "k < length (emitted_f env self lvl False)"
  shows "dc_hue (emitted_f env self lvl False ! k) =
     float_rem
       (fadd
          (fadd (fmul 255 (col_center self))
             (col_center_adjust (frame_adjustments_f env self) ! k))
          (fmul
             (fadd (fmul 127 (col_width self))
                (col_width_adjust (frame_adjustments_f env self) ! k))
             (sawtooth env
                (fmul (rel_angles_f self ! k)
                   (fadd (fmul 16 (col_spread self))
                      (col_period_adjust (frame_adjustments_f env self) ! k))) 0)))
       256"
proof -
  have nz: "segs self \<noteq> 0" and k: "k < length (rel_angles_f self)"
    using assms by (simp_all add: emitted_f_length split: if_splits)
  note sz = sized_accumulate_f [of "rel_angles_f self" env "map (update_state env) (anims self)"]
  show ?thesis
    using nz k sz
    by (simp add: emitted_f_def display_f_snd frame_adjustments_f_def rel_angles_f_advance
        draw_segments_with_animations_f_def Let_def sized_def colour_arc_def advance_f_eq
        rel_angles_f_def split_beta sawtooth_vector_def)
qed

lemma py_int_small: "\<bar>x\<bar> < 1 \<Longrightarrow> py_int x = 0"
  by (auto simp: py_int_def floor_eq_iff ceiling_eq_iff)

lemma fadd_zero_zero: "fadd 0 0 = 0"
  by (simp add: fadd_def fl_zero)

lemma fmul_zero_left: "fmul 0 x = 0"
  by (simp add: fmul_def fl_zero)

lemma fmul_zero_right: "fmul x 0 = 0"
  by (simp add: fmul_def fl_zero)

lemma demo_sawtooth: "sawtooth demo_env p offs = p"
  by (simp add: demo_env_def)

lemma edge_tunnel_fields:
  "curr_angle edge_tunnel = 0" "rot_speed edge_tunnel = - (1 / 2 ^ 53)"
  "col_center edge_tunnel = 0" "col_width edge_tunnel = 0" "col_spread edge_tunnel = 0"
  "segs edge_tunnel = 4" "blacking edge_tunnel = 2"
  by (simp_all add: edge_tunnel_def demo_tunnel_def)


lemma edge_rel_angles:
  "rel_angles_f edge_tunnel = [fmul (fdiv TWOPI_f 4) 0, fmul (fdiv TWOPI_f 4) 2]"
  by (simp add: rel_angles_f_def edge_tunnel_fields demo_segments)

lemma edge_emitted_length: "length (emitted_f demo_env edge_tunnel lvl m) = 2"
  by (simp add: emitted_f_length edge_rel_angles edge_tunnel_fields)

subsection \<open>The angle at the upper end\<close>






subsection \<open>The hue at the upper end\<close>

lemma edge_frame_adjustments:
  "frame_adjustments_f demo_env edge_tunnel =
     accumulate_f demo_env [fmul (fdiv TWOPI_f 4) 0, fmul (fdiv TWOPI_f 4) 2]
       (anims edge_tunnel)"
  by (simp add: frame_adjustments_f_def Let_def rel_angles_f_advance edge_rel_angles)
    (simp add: advance_f_eq demo_env_def)

lemma edge_colour_adjustments:
  "col_center_adjust (frame_adjustments_f demo_env edge_tunnel) ! 0 = fadd 0 (- (1 / 2 ^ 52))"
  "col_width_adjust (frame_adjustments_f demo_env edge_tunnel) ! 0 = 0"
  "col_period_adjust (frame_adjustments_f demo_env edge_tunnel) ! 0 = 0"
  by (simp_all only: edge_frame_adjustments)
    (simp_all add: accumulate_f_def route_f_def no_adjustments_def zeros_def sadd_f_def
      vadd_f_def get_value_vector_def edge_tunnel_def demo_env_def numeral_2_eq_2)

lemma edge_hue_sum: "fadd 0 (- (1 / 2 ^ 52)) = - (1 / 2 ^ 52)"
  unfolding fadd_def
  by (subst fl_eval [where e = "- 52"]) (simp_all add: powr_neg_numeral rne_def)

lemma edge_hue_sum': "fadd (- (1 / 2 ^ 52)) 0 = - (1 / 2 ^ 52)"
  unfolding fadd_def
  by (subst fl_eval [where e = "- 52"]) (simp_all add: powr_neg_numeral rne_def)

lemma edge_hue_rem: "float_rem (- (1 / 2 ^ 52)) 256 = 256"
proof -
  have m: "c_fmod (- (1 / 2 ^ 52)) 256 = - (1 / 2 ^ 52)"
    by (simp add: c_fmod_def py_int_small)
  have "fadd (- (1 / 2 ^ 52)) 256 = 256"
    unfolding fadd_def
    by (subst fl_eval [where e = 7]) (simp_all add: powr_neg_numeral rne_def)
  then show ?thesis
    unfolding float_rem_def m Let_def by simp
qed

text \<open>
  C5. The hue does not stay below 256: with the color center and width 0 and one Color
  channel that samples \<open>- 2 ^ - 52\<close>, the hue before the reduction is \<open>- 2 ^ - 52\<close>, the
  remainder adds 256 to it, and the rounded result, the hue of the emitted command, is
  256 itself.
\<close>

theorem hue_reaches_256:
  "0 < length (emitted_f demo_env edge_tunnel 255 False)
   \<and> dc_hue (emitted_f demo_env edge_tunnel 255 False ! 0) = 256"
proof -
  have k: "0 < length (emitted_f demo_env edge_tunnel 255 False)"
    by (simp add: edge_emitted_length)
  have "dc_hue (emitted_f demo_env edge_tunnel 255 False ! 0) = 256"
    by (simp only: emitted_f_colour_hue [OF k] edge_tunnel_fields edge_colour_adjustments
        demo_sawtooth fmul_zero_left fmul_zero_right fadd_zero_zero edge_hue_sum
        edge_hue_sum' edge_hue_rem)
  with k show ?thesis by simp
qed

subsection \<open>The order of the Radius channels\<close>

lemma radius_tunnel_fields:
  "segs radius_tunnel = 4" "blacking radius_tunnel = 2"
  by (simp_all add: radius_tunnel_def demo_tunnel_def)

lemma radius_rel_angles:
  "rel_angles_f radius_tunnel = [fmul (fdiv TWOPI_f 4) 0, fmul (fdiv TWOPI_f 4) 2]"
  by (simp add: rel_angles_f_def radius_tunnel_fields demo_segments)

lemma radius_frame_adjustments:
  "frame_adjustments_f demo_env (radius_tunnel\<lparr>anims := as\<rparr>) =
     accumulate_f demo_env [fmul (fdiv TWOPI_f 4) 0, fmul (fdiv TWOPI_f 4) 2] as"
proof -
  have "rel_angles_f (radius_tunnel\<lparr>anims := as\<rparr>) = rel_angles_f radius_tunnel"
    by (simp add: rel_angles_f_def)
  then show ?thesis
    by (simp add: frame_adjustments_f_def Let_def rel_angles_f_advance radius_rel_angles)
      (simp add: advance_f_eq demo_env_def)
qed

lemma radius_sum_forward:
  "rad_adjust (accumulate_f demo_env [r0, r1]
      [(Radius, dbl_0_1), (Radius, dbl_0_2), (Radius, dbl_0_3), (OtherTarget, 5)])
     = [1351079888211149 / 2 ^ 51, 1351079888211149 / 2 ^ 51]"
proof -
  have "rad_adjust (accumulate_f demo_env [r0, r1]
      [(Radius, dbl_0_1), (Radius, dbl_0_2), (Radius, dbl_0_3), (OtherTarget, 5)])
     = [fadd (fadd (fadd 0 dbl_0_1) dbl_0_2) dbl_0_3, fadd (fadd (fadd 0 dbl_0_1) dbl_0_2) dbl_0_3]"
    by (simp add: accumulate_f_def route_f_def no_adjustments_def zeros_def vadd_f_def
        get_value_vector_def demo_env_def numeral_2_eq_2)
  then show ?thesis
    by (simp only: fadd_0_dbl_0_1 fadd_dbl_0_1_0_2 fadd_0_1_0_2_0_3)
qed

lemma radius_sum_backward:
  "rad_adjust (accumulate_f demo_env [r0, r1]
      [(Radius, dbl_0_3), (Radius, dbl_0_2), (Radius, dbl_0_1), (OtherTarget, 5)])
     = [5404319552844595 / 2 ^ 53, 5404319552844595 / 2 ^ 53]"
proof -
  have "rad_adjust (accumulate_f demo_env [r0, r1]
      [(Radius, dbl_0_3), (Radius, dbl_0_2), (Radius, dbl_0_1), (OtherTarget, 5)])
     = [fadd (fadd (fadd 0 dbl_0_3) dbl_0_2) dbl_0_1, fadd (fadd (fadd 0 dbl_0_3) dbl_0_2) dbl_0_1]"
    by (simp add: accumulate_f_def route_f_def no_adjustments_def zeros_def vadd_f_def
        get_value_vector_def demo_env_def numeral_2_eq_2)
  then show ?thesis
    by (simp only: fadd_0_dbl_0_3 fadd_dbl_0_3_0_2 fadd_0_3_0_2_0_1)
qed

lemma radius_tunnel_swapped:
  "(anims radius_tunnel)[0 := anims radius_tunnel ! 2, 2 := anims radius_tunnel ! 0]
     = [(Radius, dbl_0_3), (Radius, dbl_0_2), (Radius, dbl_0_1), (OtherTarget, 5)]"
  by (simp add: radius_tunnel_def numeral_2_eq_2)

lemma radius_tunnel_anims:
  "radius_tunnel\<lparr>anims := [(Radius, dbl_0_1), (Radius, dbl_0_2), (Radius, dbl_0_3),
      (OtherTarget, 5)]\<rparr> = radius_tunnel"
  by (simp add: radius_tunnel_def)

lemma radius_tunnel_advanced:
  "radius (fst (advance_f demo_env (radius_tunnel\<lparr>anims := as\<rparr>))) = 1 / 4"
  "thickness (fst (advance_f demo_env (radius_tunnel\<lparr>anims := as\<rparr>)))
     = 1351079888211149 / 2 ^ 51"
  "max_radius (geometry demo_env) = 3" "thickness_scale (geometry demo_env) = 2"
  by (simp_all add: advance_f_eq radius_tunnel_def demo_tunnel_def demo_env_def
      demo_geometry_def)

lemma radius_rad_y_steps:
  "fmul MAX_RAD_MULT 3 = 6" "fmul 6 (1 / 4) = 3 / 2" "py_int (3 / 2) = 1"
  "fmul (1351079888211149 / 2 ^ 51) 2 = 1351079888211149 / 2 ^ 50"
  "fdiv (1351079888211149 / 2 ^ 50) 2 = 1351079888211149 / 2 ^ 51"
  "fsub 1 (1351079888211149 / 2 ^ 51) = 900719925474099 / 2 ^ 51"
proof -
  show "fmul MAX_RAD_MULT 3 = 6"
    unfolding fmul_def MAX_RAD_MULT_def
    by (subst fl_eval [where e = 2]) (simp_all add: powr_neg_numeral rne_def)
  show "fmul 6 (1 / 4) = 3 / 2"
    unfolding fmul_def
    by (subst fl_eval [where e = 0]) (simp_all add: powr_neg_numeral rne_def)
  show "py_int (3 / 2) = 1"
    by (simp add: py_int_def)
  show "fmul (1351079888211149 / 2 ^ 51) 2 = 1351079888211149 / 2 ^ 50"
    unfolding fmul_def
    by (subst fl_eval [where e = 0]) (simp_all add: powr_neg_numeral rne_def)
  show "fdiv (1351079888211149 / 2 ^ 50) 2 = 1351079888211149 / 2 ^ 51"
    unfolding fdiv_def
    by (subst fl_eval [where e = "- 1"]) (simp_all add: powr_neg_numeral rne_def)
  show "fsub 1 (1351079888211149 / 2 ^ 51) = 900719925474099 / 2 ^ 51"
    unfolding fsub_def
    by (subst fl_eval [where e = "- 2"]) (simp_all add: powr_neg_numeral rne_def)
qed

lemma radius_rad_y:
  "fst (snd (tunnel_radii_f (geometry demo_env)
      (fst (advance_f demo_env (radius_tunnel\<lparr>anims := as\<rparr>))) ell))
     = 900719925474099 / 2 ^ 51"
  by (simp only: tunnel_radii_f_def Let_def radius_tunnel_advanced radius_rad_y_steps
      of_int_1 fst_conv snd_conv)

lemma radius_rad_y_sums:
  "py_int \<bar>fadd (900719925474099 / 2 ^ 51) (1351079888211149 / 2 ^ 51)\<bar> = 1"
  "py_int \<bar>fadd (900719925474099 / 2 ^ 51) (5404319552844595 / 2 ^ 53)\<bar> = 0"
proof -
  have "fadd (900719925474099 / 2 ^ 51) (1351079888211149 / 2 ^ 51) = 1"
    unfolding fadd_def
    by (subst fl_eval [where e = 0]) (simp_all add: powr_neg_numeral rne_def)
  then show "py_int \<bar>fadd (900719925474099 / 2 ^ 51) (1351079888211149 / 2 ^ 51)\<bar> = 1"
    by (simp add: py_int_def)
  have "fadd (900719925474099 / 2 ^ 51) (5404319552844595 / 2 ^ 53)
      = 9007199254740991 / 2 ^ 53"
    unfolding fadd_def
    by (subst fl_eval [where e = "- 1"]) (simp_all add: powr_neg_numeral rne_def)
  then show "py_int \<bar>fadd (900719925474099 / 2 ^ 51) (5404319552844595 / 2 ^ 53)\<bar> = 0"
    by (simp add: py_int_small)
qed

lemma radius_emitted_length: "length (emitted_f demo_env (radius_tunnel\<lparr>anims := as\<rparr>) lvl m) = 2"
proof -
  have "rel_angles_f (radius_tunnel\<lparr>anims := as\<rparr>) = rel_angles_f radius_tunnel"
    by (simp add: rel_angles_f_def)
  then show ?thesis
    by (simp add: emitted_f_length radius_rel_angles radius_tunnel_fields)
qed

text \<open>
  C9, as the specification states it, fails: float addition is not associative. The
  example tunnel has the Radius samples 0.1, 0.2 and 0.3 in slots 0, 1 and 2. As it
  stands, the radius adjustment of each segment is 0.6000000000000001 and the first arc
  has the radius 1 on the y axis; with slots 0 and 2 exchanged the adjustment is 0.6 and
  that radius is 0.
\<close>

theorem three_radius_channels_counterexample:
  "target demo_env (update_state demo_env (anims radius_tunnel ! 0)) = Radius
   \<and> target demo_env (update_state demo_env (anims radius_tunnel ! 2)) = Radius
   \<and> rad_adjust (frame_adjustments_f demo_env
        (radius_tunnel\<lparr>anims :=
           (anims radius_tunnel)[0 := anims radius_tunnel ! 2, 2 := anims radius_tunnel ! 0]\<rparr>))
      \<noteq> rad_adjust (frame_adjustments_f demo_env radius_tunnel)
   \<and> 0 < length (emitted_f demo_env radius_tunnel 255 True)
   \<and> dc_rad_y (emitted_f demo_env radius_tunnel 255 True ! 0) = 1
   \<and> dc_rad_y (emitted_f demo_env
        (radius_tunnel\<lparr>anims :=
           (anims radius_tunnel)[0 := anims radius_tunnel ! 2, 2 := anims radius_tunnel ! 0]\<rparr>)
        255 True ! 0) = 0"
proof -
  let ?fw = "[(Radius, dbl_0_1), (Radius, dbl_0_2), (Radius, dbl_0_3), (OtherTarget, 5)]"
  let ?bw = "[(Radius, dbl_0_3), (Radius, dbl_0_2), (Radius, dbl_0_1), (OtherTarget, 5)]"
  have t: "target demo_env (update_state demo_env (anims radius_tunnel ! 0)) = Radius"
    "target demo_env (update_state demo_env (anims radius_tunnel ! 2)) = Radius"
    by (simp_all add: radius_tunnel_def demo_env_def)
  have fw: "rad_adjust (frame_adjustments_f demo_env (radius_tunnel\<lparr>anims := ?fw\<rparr>))
      = [1351079888211149 / 2 ^ 51, 1351079888211149 / 2 ^ 51]"
    by (simp only: radius_frame_adjustments radius_sum_forward)
  have bw: "rad_adjust (frame_adjustments_f demo_env (radius_tunnel\<lparr>anims := ?bw\<rparr>))
      = [5404319552844595 / 2 ^ 53, 5404319552844595 / 2 ^ 53]"
    by (simp only: radius_frame_adjustments radius_sum_backward)
  have ne: "rad_adjust (frame_adjustments_f demo_env (radius_tunnel\<lparr>anims := ?bw\<rparr>))
      \<noteq> rad_adjust (frame_adjustments_f demo_env (radius_tunnel\<lparr>anims := ?fw\<rparr>))"
    unfolding fw bw by simp
  have k: "0 < length (emitted_f demo_env (radius_tunnel\<lparr>anims := as\<rparr>) 255 True)" for as
    by (simp add: radius_emitted_length)
  have yf: "dc_rad_y (emitted_f demo_env (radius_tunnel\<lparr>anims := ?fw\<rparr>) 255 True ! 0) = 1"
    by (simp only: emitted_f_mask_rad_y [OF k] radius_rad_y fw nth_Cons_0 radius_rad_y_sums)
  have yb: "dc_rad_y (emitted_f demo_env (radius_tunnel\<lparr>anims := ?bw\<rparr>) 255 True ! 0) = 0"
    by (simp only: emitted_f_mask_rad_y [OF k] radius_rad_y bw nth_Cons_0 radius_rad_y_sums)
  from t ne k [of ?fw] yf yb show ?thesis
    by (simp only: radius_tunnel_swapped radius_tunnel_anims) simp
qed

lemma update_anims_f_drop:
  assumes "target env (update_state env a) \<noteq> Rotation"
    and "target env (update_state env a) \<noteq> Ellipse"
  shows "snd (update_anims_f env (xs @ a # ys) r e) = snd (update_anims_f env (xs @ ys) r e)"
  using assms by (induction xs arbitrary: r e) (simp_all add: Let_def split_beta)

lemma route_f_radius:
  "target env a = Radius \<Longrightarrow>
     route_f env rel a acc
       = acc\<lparr>rad_adjust := vadd_f (rad_adjust acc) (get_value_vector env a rel)\<rparr>"
  by (simp add: route_f_def)

lemma route_f_other_update:
  "target env x \<noteq> Radius \<Longrightarrow>
     route_f env rel x (acc\<lparr>rad_adjust := v\<rparr>) = (route_f env rel x acc)\<lparr>rad_adjust := v\<rparr>"
  by (cases "target env x") (simp_all add: route_f_def)

lemma route_f_other_kept:
  "target env x \<noteq> Radius \<Longrightarrow> rad_adjust (route_f env rel x acc) = rad_adjust acc"
  by (cases "target env x") (simp_all add: route_f_def)

lemma fold_route_f_other_update:
  "\<forall>x \<in> set xs. target env x \<noteq> Radius \<Longrightarrow>
     fold (route_f env rel) xs (acc\<lparr>rad_adjust := v\<rparr>)
       = (fold (route_f env rel) xs acc)\<lparr>rad_adjust := v\<rparr>"
  by (induction xs arbitrary: acc) (simp_all add: route_f_other_update)

lemma fold_route_f_other_kept:
  "\<forall>x \<in> set xs. target env x \<noteq> Radius \<Longrightarrow>
     rad_adjust (fold (route_f env rel) xs acc) = rad_adjust acc"
  by (induction xs arbitrary: acc) (simp_all add: route_f_other_kept)

text \<open>
  Two Radius channels among channels with other targets: the other accumulators do not
  see them, and the radius accumulator sees only them, in their order.
\<close>

lemma fold_route_f_two_radius:
  assumes "target env a = Radius" and "target env b = Radius"
    and "\<forall>x \<in> set (xs @ ys @ zs). target env x \<noteq> Radius"
  shows "fold (route_f env rel) (xs @ a # ys @ b # zs) acc
       = (fold (route_f env rel) (xs @ ys @ zs) acc)
           \<lparr>rad_adjust := vadd_f (vadd_f (rad_adjust acc) (get_value_vector env a rel))
              (get_value_vector env b rel)\<rparr>"
  using assms
  by (simp add: route_f_radius fold_route_f_other_update fold_route_f_other_kept ball_Un)

lemma vadd_f_two_doubles:
  assumes "\<forall>x. fl (f x) = f x" and "\<forall>x. fl (g x) = g x"
  shows "vadd_f (vadd_f (zeros (length rel)) (map f rel)) (map g rel)
       = vadd_f (vadd_f (zeros (length rel)) (map g rel)) (map f rel)"
  by (rule nth_equalityI) (simp_all add: vadd_f_def zeros_def fadd_def assms add.commute)

lemma accumulate_f_two_radius:
  assumes "target env a = Radius" and "target env b = Radius"
    and "\<forall>x \<in> set (xs @ ys @ zs). target env x \<noteq> Radius"
    and "\<forall>x. fl (get_value_elem env a x) = get_value_elem env a x"
    and "\<forall>x. fl (get_value_elem env b x) = get_value_elem env b x"
  shows "accumulate_f env rel (xs @ b # ys @ a # zs) = accumulate_f env rel (xs @ a # ys @ b # zs)"
  unfolding accumulate_f_def
  by (simp only: fold_route_f_two_radius [OF assms(1,2,3)] fold_route_f_two_radius [OF assms(2,1,3)])
    (simp add: no_adjustments_def get_value_vector_def vadd_f_two_doubles [OF assms(4,5)])

lemma display_f_snd_anims_cong:
  assumes "snd (update_anims_f env as1 0 0) = snd (update_anims_f env as2 0 0)"
    and "\<And>rel. accumulate_f env rel (map (update_state env) as1)
           = accumulate_f env rel (map (update_state env) as2)"
  shows "snd (display_f env (self\<lparr>anims := as1\<rparr>) lvl m)
       = snd (display_f env (self\<lparr>anims := as2\<rparr>) lvl m)"
  by (simp add: display_f_snd advance_f_eq tunnel_radii_f_def
      draw_segments_with_animations_f_def Let_def split_beta assms)

lemma frame_adjustments_f_anims_cong:
  assumes "\<And>rel. accumulate_f env rel (map (update_state env) as1)
           = accumulate_f env rel (map (update_state env) as2)"
  shows "frame_adjustments_f env (self\<lparr>anims := as1\<rparr>)
       = frame_adjustments_f env (self\<lparr>anims := as2\<rparr>)"
  by (simp add: frame_adjustments_f_def advance_f_eq rel_angles_f_def assms)

text \<open>
  C9, amended. When exactly two animations of a tunnel target Radius (as display reads
  the targets, after advancing) and their samples are doubles, exchanging their slots
  leaves the radius adjustment of every segment, and the outcome of display with every
  draw command, unchanged.
\<close>

theorem two_radius_channels_commute:
  assumes "target env (update_state env a) = Radius"
    and "target env (update_state env b) = Radius"
    and "\<forall>x \<in> set (xs @ ys @ zs). target env (update_state env x) \<noteq> Radius"
    and "\<forall>x. fl (get_value_elem env (update_state env a) x)
           = get_value_elem env (update_state env a) x"
    and "\<forall>x. fl (get_value_elem env (update_state env b) x)
           = get_value_elem env (update_state env b) x"
  shows "rad_adjust (frame_adjustments_f env (self\<lparr>anims := xs @ b # ys @ a # zs\<rparr>))
       = rad_adjust (frame_adjustments_f env (self\<lparr>anims := xs @ a # ys @ b # zs\<rparr>))
     \<and> snd (display_f env (self\<lparr>anims := xs @ b # ys @ a # zs\<rparr>) level_scale as_mask)
       = snd (display_f env (self\<lparr>anims := xs @ a # ys @ b # zs\<rparr>) level_scale as_mask)"
proof -
  let ?u = "update_state env"
  have others: "\<forall>x \<in> set (map ?u xs @ map ?u ys @ map ?u zs). target env x \<noteq> Radius"
    using assms(3) by auto
  have acc: "accumulate_f env rel (map ?u (xs @ b # ys @ a # zs))
      = accumulate_f env rel (map ?u (xs @ a # ys @ b # zs))" for rel
    using accumulate_f_two_radius [OF assms(1,2) others assms(4,5)] by simp
  have na: "target env (?u a) \<noteq> Rotation" "target env (?u a) \<noteq> Ellipse"
    and nb: "target env (?u b) \<noteq> Rotation" "target env (?u b) \<noteq> Ellipse"
    using assms(1,2) by simp_all
  have "snd (update_anims_f env (xs @ b # ys @ a # zs) 0 0)
      = snd (update_anims_f env (xs @ ys @ zs) 0 0)"
    using update_anims_f_drop [OF nb, of xs "ys @ a # zs" 0 0]
      update_anims_f_drop [OF na, of "xs @ ys" zs 0 0] by simp
  moreover have "snd (update_anims_f env (xs @ a # ys @ b # zs) 0 0)
      = snd (update_anims_f env (xs @ ys @ zs) 0 0)"
    using update_anims_f_drop [OF na, of xs "ys @ b # zs" 0 0]
      update_anims_f_drop [OF nb, of "xs @ ys" zs 0 0] by simp
  ultimately have tot: "snd (update_anims_f env (xs @ b # ys @ a # zs) 0 0)
      = snd (update_anims_f env (xs @ a # ys @ b # zs) 0 0)"
    by simp
  have "frame_adjustments_f env (self\<lparr>anims := xs @ b # ys @ a # zs\<rparr>)
      = frame_adjustments_f env (self\<lparr>anims := xs @ a # ys @ b # zs\<rparr>)"
    by (rule frame_adjustments_f_anims_cong) (rule acc)
  moreover have "snd (display_f env (self\<lparr>anims := xs @ b # ys @ a # zs\<rparr>) level_scale as_mask)
      = snd (display_f env (self\<lparr>anims := xs @ a # ys @ b # zs\<rparr>) level_scale as_mask)"
    by (rule display_f_snd_anims_cong) (rule tot, rule acc)
  ultimately show ?thesis
    by simp
qed

text \<open>The Radius samples 0.1 and 0.3 in slots 1 and 3 of the example tunnel.\<close>

theorem two_radius_channels_commute_witness:
  "target demo_env (update_state demo_env (Radius, dbl_0_1)) = Radius
   \<and> target demo_env (update_state demo_env (Radius, dbl_0_3)) = Radius
   \<and> fl dbl_0_1 = dbl_0_1 \<and> fl dbl_0_3 = dbl_0_3
   \<and> rad_adjust (frame_adjustments_f demo_env
        (demo_tunnel\<lparr>anims := [(Color, 200)] @ (Radius, dbl_0_3) # [(OtherTarget, 5)]
           @ (Radius, dbl_0_1) # []\<rparr>))
      = rad_adjust (frame_adjustments_f demo_env
        (demo_tunnel\<lparr>anims := [(Color, 200)] @ (Radius, dbl_0_1) # [(OtherTarget, 5)]
           @ (Radius, dbl_0_3) # []\<rparr>))
   \<and> snd (display_f demo_env
        (demo_tunnel\<lparr>anims := [(Color, 200)] @ (Radius, dbl_0_3) # [(OtherTarget, 5)]
           @ (Radius, dbl_0_1) # []\<rparr>) 255 False)
      = snd (display_f demo_env
        (demo_tunnel\<lparr>anims := [(Color, 200)] @ (Radius, dbl_0_1) # [(OtherTarget, 5)]
           @ (Radius, dbl_0_3) # []\<rparr>) 255 False)"
proof -
  have ta: "target demo_env (update_state demo_env (Radius, dbl_0_1)) = Radius"
    and tb: "target demo_env (update_state demo_env (Radius, dbl_0_3)) = Radius"
    and ot: "\<forall>x \<in> set ([(Color, 200)] @ [(OtherTarget, 5)] @ []).
          target demo_env (update_state demo_env x) \<noteq> Radius"
    by (simp_all add: demo_env_def)
  have da: "fl dbl_0_1 = dbl_0_1" and db: "fl dbl_0_3 = dbl_0_3"
    using fadd_0_dbl_0_1 fadd_0_dbl_0_3 by (simp_all add: fadd_def)
  have sa: "\<forall>x. fl (get_value_elem demo_env (update_state demo_env (Radius, dbl_0_1)) x)
           = get_value_elem demo_env (update_state demo_env (Radius, dbl_0_1)) x"
    and sb: "\<forall>x. fl (get_value_elem demo_env (update_state demo_env (Radius, dbl_0_3)) x)
           = get_value_elem demo_env (update_state demo_env (Radius, dbl_0_3)) x"
    using da db by (simp_all add: demo_env_def)
  show ?thesis
    using ta tb da db
      two_radius_channels_commute [OF ta tb ot sa sb, where self = demo_tunnel
        and level_scale = 255 and as_mask = False]
    by blast
qed

end
